theory Spec2Isabelle
  imports Main
begin

section \<open>Python values, errors and indexing\<close>

text \<open>
  The notebook cells modelled here are
  \<^verbatim>\<open>
  coord_wg  = [25408683, 25408869]
  offset    = 25053647
  coord_sub = [pos - offset for pos in coord_wg]
  region_subset = 'chr1:{}-{}'.format(coord_sub[0], coord_sub[1])

  var_pos = ''
  for record in vcf_reader('chr1:{}-{}'.format(coord_sub[0], coord_sub[1])):
      if record.genotypes[0][0] == 1 and record.genotypes[0][1] == 1:
          print(record)
          var_pos = record.start
          break
  print('There is a variant at position {}'.format(var_pos))

  region = 'GRCh38.chr1:{}-{}'.format(var_pos, var_pos)
  \<close>
  Python integers are unbounded, so they are \<open>int\<close>. Every exception the cells can raise
  is a value of \<open>error\<close>.
\<close>

datatype error = IndexError | ValueError | Unsupported

text \<open>The values the variable \<open>var_pos\<close> and the arguments of \<open>str.format\<close> range over.\<close>

datatype pyval = PyNone | PyStr string | PyInt int

text \<open>\<open>xs[i]\<close> for a literal index \<open>i \<ge> 0\<close>: out of range raises \<open>IndexError\<close>.\<close>

definition py_index :: "'a list \<Rightarrow> nat \<Rightarrow> error + 'a" where
  "py_index xs i = (if i < length xs then Inr (xs ! i) else Inl IndexError)"

section \<open>Integer-to-string formatting and \<open>str.format\<close>\<close>

definition digit_char :: "nat \<Rightarrow> char" where
  "digit_char d = ''0123456789'' ! (d mod 10)"

fun str_nat :: "nat \<Rightarrow> string" where
  "str_nat n = (if n < 10 then [digit_char n]
                else str_nat (n div 10) @ [digit_char (n mod 10)])"

declare str_nat.simps [simp del]

text \<open>\<open>str(i)\<close> of a Python integer: decimal digits, a leading minus sign when negative.\<close>

definition str_int :: "int \<Rightarrow> string" where
  "str_int i = (if i < 0 then CHR ''-'' # str_nat (nat (- i)) else str_nat (nat i))"

text \<open>What an empty replacement field \<open>{}\<close> puts into the string for a value.\<close>

fun py_str :: "pyval \<Rightarrow> string" where
  "py_str PyNone = ''None''"
| "py_str (PyStr s) = s"
| "py_str (PyInt i) = str_int i"

text \<open>
  \<open>template.format(*args)\<close> for templates built from literal text, automatically numbered
  fields \<open>{}\<close> and the escapes \<open>{{\<close> and \<open>}}\<close>. A field that finds no argument left raises
  \<open>IndexError\<close>, a single brace raises \<open>ValueError\<close>. Fields with a name, a conversion or a
  format specification do not occur in the notebook; the model stops at them with
  \<open>Unsupported\<close>. Surplus arguments are ignored, as Python does.
\<close>

fun py_format :: "string \<Rightarrow> pyval list \<Rightarrow> error + string" where
  "py_format [] args = Inr []"
| "py_format [c] args =
     (if c = CHR ''{'' \<or> c = CHR ''}'' then Inl ValueError else Inr [c])"
| "py_format (c # d # cs) args =
     (if c = CHR ''{'' then
        (if d = CHR ''}'' then
           (case args of
              [] \<Rightarrow> Inl IndexError
            | a # as \<Rightarrow> (case py_format cs as of
                          Inl e \<Rightarrow> Inl e
                        | Inr r \<Rightarrow> Inr (py_str a @ r)))
         else if d = CHR ''{'' then
           (case py_format cs args of Inl e \<Rightarrow> Inl e | Inr r \<Rightarrow> Inr (CHR ''{'' # r))
         else Inl Unsupported)
      else if c = CHR ''}'' then
        (if d = CHR ''}'' then
           (case py_format cs args of Inl e \<Rightarrow> Inl e | Inr r \<Rightarrow> Inr (CHR ''}'' # r))
         else Inl ValueError)
      else (case py_format (d # cs) args of Inl e \<Rightarrow> Inl e | Inr r \<Rightarrow> Inr (c # r)))"

section \<open>Coordinate translation\<close>

text \<open>The element expression \<open>pos - offset\<close> of the comprehension.\<close>

definition translate :: "int \<Rightarrow> int \<Rightarrow> int" where
  "translate pos off = pos - off"

text \<open>The comprehension \<open>[pos - offset for pos in coord_wg]\<close>.\<close>

definition coord_sub_of :: "int list \<Rightarrow> int \<Rightarrow> int list" where
  "coord_sub_of wg off = map (\<lambda>pos. translate pos off) wg"

text \<open>
  The pair \<open>(coord_sub[0], coord_sub[1])\<close> that the cell reads back from the translated
  list, for \<open>coord_wg = [start, end]\<close>.
\<close>

definition translate_region :: "int \<Rightarrow> int \<Rightarrow> int \<Rightarrow> error + int \<times> int" where
  "translate_region start_wg end_wg off =
     (let cs = coord_sub_of [start_wg, end_wg] off in
      case py_index cs 0 of
        Inl e \<Rightarrow> Inl e
      | Inr a \<Rightarrow> (case py_index cs 1 of
                    Inl e \<Rightarrow> Inl e
                  | Inr b \<Rightarrow> Inr (a, b)))"

text \<open>\<open>'chr1:{}-{}'.format(coord_sub[0], coord_sub[1])\<close>, used twice by the notebook.\<close>

definition region_query :: "int list \<Rightarrow> error + string" where
  "region_query cs =
     (case py_index cs 0 of
        Inl e \<Rightarrow> Inl e
      | Inr a \<Rightarrow> (case py_index cs 1 of
                    Inl e \<Rightarrow> Inl e
                  | Inr b \<Rightarrow> py_format ''chr1:{}-{}'' [PyInt a, PyInt b]))"

text \<open>\<open>'GRCh38.chr1:{}-{}'.format(var_pos, var_pos)\<close>.\<close>

definition region_of :: "pyval \<Rightarrow> error + string" where
  "region_of v = py_format ''GRCh38.chr1:{}-{}'' [v, v]"

section \<open>Variant records and the notebook's variables\<close>

text \<open>
  One sample's genotype as the reader hands it over: the allele indices followed by the
  phasing flag, \<open>[0, 1, True]\<close>. Python compares a boolean with \<open>1\<close> as a number, so
  \<open>True == 1\<close> holds.
\<close>

datatype gt_entry = Allele int | Phased bool

fun py_eq_1 :: "gt_entry \<Rightarrow> bool" where
  "py_eq_1 (Allele a) = (a = 1)"
| "py_eq_1 (Phased b) = b"

record variant =
  contig :: string
  start :: int
  genotypes :: "gt_entry list list"

text \<open>What \<open>print\<close> has written: a record (in the reader's own rendering) or a text line.\<close>

datatype out = OutRecord variant | OutText string

record namespace =
  coord_wg :: "int list"
  offset :: int
  coord_sub :: "int list"
  region_subset :: string
  var_pos :: pyval
  region :: string
  stdout :: "out list"

text \<open>
  \<open>record.genotypes[0][0] == 1 and record.genotypes[0][1] == 1\<close>. The second conjunct is
  evaluated only when the first holds.
\<close>

definition is_hom_alt :: "variant \<Rightarrow> error + bool" where
  "is_hom_alt r =
     (case py_index (genotypes r) 0 of
        Inl e \<Rightarrow> Inl e
      | Inr g \<Rightarrow> (case py_index g 0 of
                    Inl e \<Rightarrow> Inl e
                  | Inr a \<Rightarrow>
                      if py_eq_1 a then
                        (case py_index g 1 of
                           Inl e \<Rightarrow> Inl e
                         | Inr b \<Rightarrow> Inr (py_eq_1 b))
                      else Inr False))"

text \<open>
  The \<open>for\<close> loop with its \<open>break\<close>. The stream is the list of records the reader still
  has to yield; the loop returns the variables together with the part of the stream it
  has not pulled.
\<close>

fun find_first_homozygous_alt ::
  "namespace \<Rightarrow> variant list \<Rightarrow> error + namespace \<times> variant list" where
  "find_first_homozygous_alt ns [] = Inr (ns, [])"
| "find_first_homozygous_alt ns (r # rest) =
     (case is_hom_alt r of
        Inl e \<Rightarrow> Inl e
      | Inr m \<Rightarrow>
          if m then
            Inr (ns\<lparr>stdout := stdout ns @ [OutRecord r], var_pos := PyInt (start r)\<rparr>, rest)
          else find_first_homozygous_alt ns rest)"

text \<open>Number of records pulled from a stream of which \<open>rest\<close> is left.\<close>

definition consumed :: "variant list \<Rightarrow> variant list \<Rightarrow> nat" where
  "consumed stream rest = length stream - length rest"

text \<open>The statement \<open>coord_sub = [pos - offset for pos in coord_wg]\<close> on the variables.\<close>

definition stmt_coord_sub :: "namespace \<Rightarrow> namespace" where
  "stmt_coord_sub ns = ns\<lparr>coord_sub := coord_sub_of (coord_wg ns) (offset ns)\<rparr>"

text \<open>The first cell, with the two literals as parameters.\<close>

definition cell_coords :: "int list \<Rightarrow> int \<Rightarrow> namespace \<Rightarrow> error + namespace" where
  "cell_coords wg off ns =
     (let ns1 = ns\<lparr>coord_wg := wg\<rparr>;
          ns2 = ns1\<lparr>offset := off\<rparr>;
          ns3 = stmt_coord_sub ns2
      in case region_query (coord_sub ns3) of
           Inl e \<Rightarrow> Inl e
         | Inr s \<Rightarrow>
             let ns4 = ns3\<lparr>region_subset := s\<rparr>
             in Inr (ns4\<lparr>stdout := stdout ns4 @
                  [OutText (''In this slice of the pangenome, the region of interest is at: ''
                            @ region_subset ns4)]\<rparr>))"

text \<open>
  The cell with the loop. The reader is the external collaborator: a function from the
  query string to the stream of records it yields.
\<close>

definition cell_find_variant ::
  "(string \<Rightarrow> variant list) \<Rightarrow> namespace \<Rightarrow> error + namespace \<times> variant list" where
  "cell_find_variant vcf_reader ns =
     (let ns1 = ns\<lparr>var_pos := PyStr ''''\<rparr>
      in case region_query (coord_sub ns1) of
           Inl e \<Rightarrow> Inl e
         | Inr q \<Rightarrow>
             (case find_first_homozygous_alt ns1 (vcf_reader q) of
                Inl e \<Rightarrow> Inl e
              | Inr (ns2, rest) \<Rightarrow>
                  (case py_format ''There is a variant at position {}'' [var_pos ns2] of
                     Inl e \<Rightarrow> Inl e
                   | Inr s \<Rightarrow> Inr (ns2\<lparr>stdout := stdout ns2 @ [OutText s]\<rparr>, rest))))"

text \<open>The statement \<open>region = 'GRCh38.chr1:{}-{}'.format(var_pos, var_pos)\<close>.\<close>

definition cell_region :: "namespace \<Rightarrow> error + namespace" where
  "cell_region ns =
     (case region_of (var_pos ns) of
        Inl e \<Rightarrow> Inl e
      | Inr s \<Rightarrow> Inr (ns\<lparr>region := s\<rparr>))"

section \<open>Reading decimal digits back\<close>

text \<open>
  The value of a digit string, most significant digit first. It is used only to state
  that \<open>str_nat\<close> writes the decimal representation.
\<close>

definition digit_val :: "char \<Rightarrow> nat" where
  "digit_val c = of_char c - 48"

definition nat_of_digits :: "string \<Rightarrow> nat" where
  "nat_of_digits s = foldl (\<lambda>acc c. 10 * acc + digit_val c) 0 s"

definition int_of_str :: "string \<Rightarrow> int" where
  "int_of_str s =
     (case s of
        [] \<Rightarrow> 0
      | c # cs \<Rightarrow> if c = CHR ''-'' then - int (nat_of_digits cs) else int (nat_of_digits s))"

section \<open>Example inputs\<close>

text \<open>
  Variables before the cells have run hold placeholders here; every cell assigns a
  variable before it reads it, and the coordinate cell runs before the other two.
\<close>

definition ns_blank :: namespace where
  "ns_blank = \<lparr>coord_wg = [], offset = 0, coord_sub = [], region_subset = [],
               var_pos = PyNone, region = [], stdout = []\<rparr>"

definition ns_sliced :: namespace where
  "ns_sliced = \<lparr>coord_wg = [25408683, 25408869], offset = 25053647,
                coord_sub = [355036, 355222], region_subset = ''chr1:355036-355222'',
                var_pos = PyNone, region = [],
                stdout = [OutText (''In this slice of the pangenome, the region of interest is at: ''
                                   @ ''chr1:355036-355222'')]\<rparr>"

definition v_het :: variant where
  "v_het = \<lparr>contig = ''chr1'', start = 355038,
            genotypes = [[Allele 0, Allele 1, Phased False]]\<rparr>"

definition v_homalt :: variant where
  "v_homalt = \<lparr>contig = ''chr1'', start = 355040,
               genotypes = [[Allele 1, Allele 1, Phased False]]\<rparr>"

definition v_homalt_next :: variant where
  "v_homalt_next = \<lparr>contig = ''chr1'', start = 355101,
                    genotypes = [[Allele 1, Allele 1, Phased True]]\<rparr>"

definition v_homalt2 :: variant where
  "v_homalt2 = \<lparr>contig = ''chr1'', start = 355060,
                genotypes = [[Allele 2, Allele 2, Phased False]]\<rparr>"

text \<open>A reader that yields the given records for every query.\<close>

definition reader_of :: "variant list \<Rightarrow> string \<Rightarrow> variant list" where
  "reader_of vs q = vs"

section \<open>Indexing and translation lemmas\<close>

lemma py_format_chr1:
  "py_format ''chr1:{}-{}'' [a, b] = Inr (''chr1:'' @ py_str a @ ''-'' @ py_str b)"
  by simp

lemma py_format_GRCh38:
  "py_format ''GRCh38.chr1:{}-{}'' [a, b] = Inr (''GRCh38.chr1:'' @ py_str a @ ''-'' @ py_str b)"
  by simp

lemma py_format_position:
  "py_format ''There is a variant at position {}'' [a] =
     Inr (''There is a variant at position '' @ py_str a)"
  by simp

lemma py_index_simps:
  "py_index (x # xs) 0 = Inr x"
  "py_index (x # y # xs) (Suc 0) = Inr y"
  "py_index [] i = Inl IndexError"
  "py_index [x] (Suc 0) = Inl IndexError"
  by (simp_all add: py_index_def)

lemma translate_region_eq: "translate_region s e off = Inr (s - off, e - off)"
  by (simp add: translate_region_def coord_sub_of_def translate_def py_index_simps)

lemma region_query_two:
  "region_query (a # b # cs) = Inr (''chr1:'' @ str_int a @ ''-'' @ str_int b)"
  by (simp add: region_query_def py_index_simps del: py_format.simps add: py_format_chr1)

section \<open>\<open>str_int\<close> writes the decimal representation\<close>

lemma digit_val_digit_char: "d < 10 \<Longrightarrow> digit_val (digit_char d) = d"
proof -
  assume "d < 10"
  then consider "d = 0" | "d = 1" | "d = 2" | "d = 3" | "d = 4" | "d = 5" | "d = 6" | "d = 7" | "d = 8" | "d = 9"
    by atomize_elim arith
  then show ?thesis
    by cases (simp_all add: digit_val_def digit_char_def)
qed

lemma nat_of_digits_snoc: "nat_of_digits (s @ [c]) = 10 * nat_of_digits s + digit_val c"
  by (simp add: nat_of_digits_def)

lemma nat_of_digits_str_nat: "nat_of_digits (str_nat n) = n"
proof (induction n rule: str_nat.induct)
  case (1 n)
  show ?case
  proof (cases "n < 10")
    case True
    then show ?thesis
      using digit_val_digit_char [of n] nat_of_digits_snoc [of "[]" "digit_char n"]
      by (simp add: str_nat.simps [of n] nat_of_digits_def)
  next
    case False
    then have "nat_of_digits (str_nat n) = 10 * (n div 10) + n mod 10"
      using 1 digit_val_digit_char [of "n mod 10"]
      by (simp add: str_nat.simps [of n] nat_of_digits_snoc)
    then show ?thesis by simp
  qed
qed

lemma str_nat_nonempty: "str_nat n \<noteq> []"
  by (simp add: str_nat.simps [of n])

lemma digit_char_not_minus: "digit_char d \<noteq> CHR ''-''"
proof -
  have "d mod 10 < 10" by simp
  then consider "d mod 10 = 0" | "d mod 10 = 1" | "d mod 10 = 2" | "d mod 10 = 3" | "d mod 10 = 4"
    | "d mod 10 = 5" | "d mod 10 = 6" | "d mod 10 = 7" | "d mod 10 = 8" | "d mod 10 = 9"
    by atomize_elim arith
  then show ?thesis
    by cases (simp_all add: digit_char_def)
qed

lemma hd_str_nat_not_minus: "hd (str_nat n) \<noteq> CHR ''-''"
proof (induction n rule: str_nat.induct)
  case (1 n)
  show ?case
  proof (cases "n < 10")
    case True
    then show ?thesis by (simp add: str_nat.simps [of n] digit_char_not_minus)
  next
    case False
    then show ?thesis
      using 1 str_nat_nonempty [of "n div 10"]
      by (simp add: str_nat.simps [of n])
  qed
qed

lemma int_of_str_str_int: "int_of_str (str_int i) = i"
proof (cases "i < 0")
  case True
  then show ?thesis
    by (simp add: int_of_str_def str_int_def nat_of_digits_str_nat)
next
  case False
  obtain c cs where s: "str_nat (nat i) = c # cs"
    using str_nat_nonempty [of "nat i"] by (cases "str_nat (nat i)") auto
  have "c \<noteq> CHR ''-''"
    using hd_str_nat_not_minus [of "nat i"] s by simp
  moreover have "nat_of_digits (c # cs) = nat i"
    using nat_of_digits_str_nat [of "nat i"] s by simp
  ultimately show ?thesis
    using False s by (simp add: int_of_str_def str_int_def)
qed

lemma str_int_inj: "str_int a = str_int b \<Longrightarrow> a = b"
  by (metis int_of_str_str_int)

lemma str_nat_digit: "n < 10 \<Longrightarrow> str_nat n = [digit_char n]"
  by (simp add: str_nat.simps [of n])

lemma str_nat_step: "10 \<le> n \<Longrightarrow> str_nat n = str_nat (n div 10) @ [digit_char (n mod 10)]"
  by (simp add: str_nat.simps [of n])

lemmas str_eval = str_int_def str_nat_digit str_nat_step digit_char_def

lemma str_int_examples:
  "str_int 355040 = ''355040''" "str_int 355036 = ''355036''" "str_int 355222 = ''355222''"
  "str_int (- 10) = ''-10''" "str_int 0 = ''0''"
  by (simp_all add: str_eval)

section \<open>The genotype test and the loop\<close>

lemma is_hom_alt_pair:
  "genotypes r = (Allele a # Allele b # g) # gs \<Longrightarrow> is_hom_alt r = Inr (a = 1 \<and> b = 1)"
  by (simp add: is_hom_alt_def py_index_simps)

lemma find_skips_prefix:
  "\<forall>r\<in>set pre. is_hom_alt r = Inr False \<Longrightarrow>
   find_first_homozygous_alt ns (pre @ vs) = find_first_homozygous_alt ns vs"
  by (induction pre) simp_all

lemma find_no_match:
  "\<forall>r\<in>set vs. is_hom_alt r = Inr False \<Longrightarrow> find_first_homozygous_alt ns vs = Inr (ns, [])"
  using find_skips_prefix [of vs ns "[]"] by simp


lemma find_result_cases:
  "find_first_homozygous_alt ns vs = Inr (ns', rest) \<Longrightarrow>
   (ns' = ns \<and> rest = [] \<and> (\<forall>r\<in>set vs. is_hom_alt r = Inr False)) \<or>
   (\<exists>pre m. vs = pre @ m # rest \<and> (\<forall>r\<in>set pre. is_hom_alt r = Inr False) \<and>
      is_hom_alt m = Inr True \<and>
      ns' = ns\<lparr>stdout := stdout ns @ [OutRecord m], var_pos := PyInt (start m)\<rparr>)"
proof (induction vs)
  case Nil
  then show ?case by simp
next
  case (Cons v vs)
  from Cons.prems obtain t where t: "is_hom_alt v = Inr t"
    by (cases "is_hom_alt v") simp_all
  show ?case
  proof (cases t)
    case True
    with Cons.prems t
    have "v # vs = [] @ v # rest \<and> (\<forall>r\<in>set []. is_hom_alt r = Inr False) \<and> is_hom_alt v = Inr True \<and>
      ns' = ns\<lparr>stdout := stdout ns @ [OutRecord v], var_pos := PyInt (start v)\<rparr>"
      by auto
    then show ?thesis by blast
  next
    case False
    with Cons.prems t have "find_first_homozygous_alt ns vs = Inr (ns', rest)"
      by simp
    from Cons.IH [OF this] show ?thesis
    proof
      assume "ns' = ns \<and> rest = [] \<and> (\<forall>r\<in>set vs. is_hom_alt r = Inr False)"
      with t False show ?thesis by simp
    next
      assume "\<exists>pre m. vs = pre @ m # rest \<and> (\<forall>r\<in>set pre. is_hom_alt r = Inr False) \<and>
        is_hom_alt m = Inr True \<and>
        ns' = ns\<lparr>stdout := stdout ns @ [OutRecord m], var_pos := PyInt (start m)\<rparr>"
      then obtain pre m where pm: "vs = pre @ m # rest" "\<forall>r\<in>set pre. is_hom_alt r = Inr False"
        "is_hom_alt m = Inr True"
        "ns' = ns\<lparr>stdout := stdout ns @ [OutRecord m], var_pos := PyInt (start m)\<rparr>"
        by blast
      with t False have "v # vs = (v # pre) @ m # rest \<and> (\<forall>r\<in>set (v # pre). is_hom_alt r = Inr False)"
        by simp
      with pm show ?thesis by blast
    qed
  qed
qed

lemma cell_find_variant_no_match:
  assumes q: "region_query (coord_sub ns) = Inr q"
    and nm: "\<forall>r\<in>set (vcf_reader q). is_hom_alt r = Inr False"
  shows "cell_find_variant vcf_reader ns =
           Inr (ns\<lparr>var_pos := PyStr '''',
                    stdout := stdout ns @ [OutText ''There is a variant at position '']\<rparr>, [])"
  using q find_no_match [OF nm, of "ns\<lparr>var_pos := PyStr ''''\<rparr>"]
  by (simp add: cell_find_variant_def py_format_position del: py_format.simps)



lemma is_hom_alt_examples:
  "is_hom_alt v_het = Inr False" "is_hom_alt v_homalt = Inr True"
  "is_hom_alt v_homalt_next = Inr True" "is_hom_alt v_homalt2 = Inr False"
  by (simp_all add: is_hom_alt_pair v_het_def v_homalt_def v_homalt_next_def v_homalt2_def)

section \<open>The scan\<close>

text \<open>
  C1. The loop goes through the stream in its order and stops at the first record whose
  test holds: when every record of \<open>pre\<close> fails the test and \<open>m\<close> passes it, the loop on
  \<open>pre @ m # post\<close> prints \<open>m\<close>, keeps the start of \<open>m\<close> in \<open>var_pos\<close> and leaves \<open>post\<close>
  unread, so the number of records pulled is the index of \<open>m\<close> plus one.
\<close>

theorem find_first_stops_at_first_match:
  "(\<forall>r\<in>set pre. is_hom_alt r = Inr False) \<Longrightarrow> is_hom_alt m = Inr True \<Longrightarrow>
   find_first_homozygous_alt ns (pre @ m # post) =
     Inr (ns\<lparr>stdout := stdout ns @ [OutRecord m], var_pos := PyInt (start m)\<rparr>, post)
   \<and> consumed (pre @ m # post) post = length pre + 1"
  by (simp add: find_skips_prefix consumed_def)

theorem find_first_stops_at_first_match_witness:
  "is_hom_alt v_het = Inr False \<and> is_hom_alt v_homalt = Inr True \<and>
   find_first_homozygous_alt ns_sliced [v_het, v_homalt, v_homalt_next] =
     Inr (ns_sliced\<lparr>stdout := stdout ns_sliced @ [OutRecord v_homalt], var_pos := PyInt 355040\<rparr>,
          [v_homalt_next])
   \<and> consumed [v_het, v_homalt, v_homalt_next] [v_homalt_next] = 2"
  using find_first_stops_at_first_match [of "[v_het]" v_homalt ns_sliced "[v_homalt_next]"]
  by (simp add: is_hom_alt_examples) (simp add: v_homalt_def)

text \<open>
  C9. A record whose first sample's genotype is a pair of allele indices other than
  \<open>(1, 1)\<close> is skipped: the loop goes on with the next record, state unchanged, and on no
  stream is such a record the one the loop prints when it stops.
\<close>

theorem non_matching_genotype_skipped:
  "genotypes r = (Allele a # Allele b # g) # gs \<Longrightarrow> a \<noteq> 1 \<or> b \<noteq> 1 \<Longrightarrow>
   find_first_homozygous_alt ns (r # rest) = find_first_homozygous_alt ns rest \<and>
   (\<forall>vs ns' rest'. find_first_homozygous_alt ns vs = Inr (ns', rest') \<longrightarrow>
      stdout ns' \<noteq> stdout ns @ [OutRecord r])"
proof -
  assume g: "genotypes r = (Allele a # Allele b # g) # gs" and ab: "a \<noteq> 1 \<or> b \<noteq> 1"
  have f: "is_hom_alt r = Inr False"
    using is_hom_alt_pair [OF g] ab by auto
  have skip: "find_first_homozygous_alt ns (r # rest) = find_first_homozygous_alt ns rest"
    using f by simp
  have never: "stdout ns' \<noteq> stdout ns @ [OutRecord r]"
    if res: "find_first_homozygous_alt ns vs = Inr (ns', rest')" for vs ns' rest'
    using find_result_cases [OF res] f by auto
  from skip never show ?thesis by blast
qed

theorem non_matching_genotype_skipped_witness:
  "genotypes v_homalt2 = [[Allele 2, Allele 2, Phased False]] \<and> (2::int) \<noteq> 1 \<and>
   find_first_homozygous_alt ns_sliced [v_homalt2, v_homalt] =
     find_first_homozygous_alt ns_sliced [v_homalt] \<and>
   find_first_homozygous_alt ns_sliced [v_homalt2, v_homalt] =
     Inr (ns_sliced\<lparr>stdout := stdout ns_sliced @ [OutRecord v_homalt],
            var_pos := PyInt (start v_homalt)\<rparr>, []) \<and>
   stdout (ns_sliced\<lparr>stdout := stdout ns_sliced @ [OutRecord v_homalt],
             var_pos := PyInt (start v_homalt)\<rparr>) \<noteq>
     stdout ns_sliced @ [OutRecord v_homalt2]"
proof -
  let ?found = "ns_sliced\<lparr>stdout := stdout ns_sliced @ [OutRecord v_homalt],
                  var_pos := PyInt (start v_homalt)\<rparr>"
  have g: "genotypes v_homalt2 = (Allele 2 # Allele 2 # [Phased False]) # []"
    by (simp add: v_homalt2_def)
  have ne: "(2::int) \<noteq> 1 \<or> (2::int) \<noteq> 1" by simp
  note inst = non_matching_genotype_skipped [OF g ne, of ns_sliced "[v_homalt]"]
  have skip: "find_first_homozygous_alt ns_sliced [v_homalt2, v_homalt] =
      find_first_homozygous_alt ns_sliced [v_homalt]"
    using inst by blast
  have res: "find_first_homozygous_alt ns_sliced [v_homalt] = Inr (?found, [])"
    by (simp add: is_hom_alt_examples)
  have "stdout ?found \<noteq> stdout ns_sliced @ [OutRecord v_homalt2]"
    using inst res by blast
  with g skip res show ?thesis by simp
qed

section \<open>The translation\<close>



text \<open>
  C6. For a fixed offset the translation of a coordinate is injective and keeps the
  order: equal results come from equal coordinates, and \<open>a \<le> b\<close> gives
  \<open>translate a off \<le> translate b off\<close>.
\<close>

theorem translate_injective_monotone:
  "(translate p1 off = translate p2 off \<longrightarrow> p1 = p2) \<and>
   (a \<le> b \<longrightarrow> translate a off \<le> translate b off)"
  by (simp add: translate_def)

theorem translate_injective_monotone_witness:
  "translate 25408683 25053647 = translate 25408683 25053647 \<and> (25408683::int) = 25408683 \<and>
   (25408683::int) \<le> 25408869 \<and> translate 25408683 25053647 \<le> translate 25408869 25053647"
  using translate_injective_monotone [of 25408683 25053647 25408683 25408683 25408869]
  by simp




text \<open>
  C8. The statement that translates the coordinates is a function of \<open>coord_wg\<close> and
  \<open>offset\<close> alone: two states that agree on these two variables get the same
  \<open>coord_sub\<close>, whatever else they hold; the result is the element-wise translation;
  running the statement a second time changes nothing; and the statement changes no
  variable other than the one it assigns.
\<close>

theorem translate_statement_pure:
  "(coord_wg ns1 = coord_wg ns2 \<and> offset ns1 = offset ns2 \<longrightarrow>
      coord_sub (stmt_coord_sub ns1) = coord_sub (stmt_coord_sub ns2)) \<and>
   coord_sub (stmt_coord_sub ns) = map (\<lambda>pos. translate pos (offset ns)) (coord_wg ns) \<and>
   stmt_coord_sub (stmt_coord_sub ns) = stmt_coord_sub ns \<and>
   stmt_coord_sub ns = ns\<lparr>coord_sub := coord_sub (stmt_coord_sub ns)\<rparr>"
  by (simp add: stmt_coord_sub_def coord_sub_of_def)

theorem translate_statement_pure_witness:
  "coord_wg ns_sliced = coord_wg (ns_sliced\<lparr>var_pos := PyInt 7, stdout := []\<rparr>) \<and>
   offset ns_sliced = offset (ns_sliced\<lparr>var_pos := PyInt 7, stdout := []\<rparr>) \<and>
   coord_sub (stmt_coord_sub ns_sliced) =
     coord_sub (stmt_coord_sub (ns_sliced\<lparr>var_pos := PyInt 7, stdout := []\<rparr>)) \<and>
   coord_sub (stmt_coord_sub ns_sliced) = [355036, 355222]"
proof -
  let ?other = "ns_sliced\<lparr>var_pos := PyInt 7, stdout := []\<rparr>"
  have same: "coord_wg ns_sliced = coord_wg ?other \<and> offset ns_sliced = offset ?other"
    by simp
  have val: "coord_sub (stmt_coord_sub ns_sliced) = [355036, 355222]"
    by (simp add: stmt_coord_sub_def coord_sub_of_def translate_def ns_sliced_def)
  from translate_statement_pure [of ns_sliced ?other ns_sliced] same
  have "coord_sub (stmt_coord_sub ns_sliced) = coord_sub (stmt_coord_sub ?other)"
    by blast
  with same val show ?thesis by simp
qed

section \<open>The notebook's scenario\<close>

text \<open>
  C3. The scenario of the notebook: the whole-genome region 25408683 to 25408869 with
  offset 25053647 becomes the region 355036 to 355222 of the slice, and the first cell
  leaves exactly that in its variables. When the reader yields one record at position
  355040 whose first sample's genotype is \<open>(1, 1)\<close> (any contig, phasing and further
  samples), the loop prints that record and keeps 355040, and the region for the subgraph
  extraction is \<open>GRCh38.chr1:355040-355040\<close>.
\<close>

theorem scenario_rhce_exon:
  "translate_region 25408683 25408869 25053647 = Inr (355036, 355222) \<and>
   cell_coords [25408683, 25408869] 25053647 ns_blank = Inr ns_sliced \<and>
   (let r = \<lparr>contig = c, start = 355040, genotypes = (Allele 1 # Allele 1 # g) # gs\<rparr>;
        ns_found = ns_sliced\<lparr>var_pos := PyInt 355040,
                     stdout := stdout ns_sliced @
                       [OutRecord r, OutText ''There is a variant at position 355040'']\<rparr>
    in cell_find_variant (reader_of [r]) ns_sliced = Inr (ns_found, []) \<and>
       cell_region ns_found = Inr (ns_found\<lparr>region := ''GRCh38.chr1:355040-355040''\<rparr>))"
proof -
  define r where "r = \<lparr>contig = c, start = 355040, genotypes = (Allele 1 # Allele 1 # g) # gs\<rparr>"
  define ns_found where "ns_found = ns_sliced\<lparr>var_pos := PyInt 355040,
                     stdout := stdout ns_sliced @
                       [OutRecord r, OutText ''There is a variant at position 355040'']\<rparr>"
  have a: "translate_region 25408683 25408869 25053647 = Inr (355036, 355222)"
    by (simp add: translate_region_eq)
  have b: "cell_coords [25408683, 25408869] 25053647 ns_blank = Inr ns_sliced"
    by (simp add: cell_coords_def stmt_coord_sub_def coord_sub_of_def translate_def ns_blank_def
        ns_sliced_def region_query_two str_int_examples)
  have q: "region_query (coord_sub ns_sliced) = Inr ''chr1:355036-355222''"
    by (simp add: ns_sliced_def region_query_two str_int_examples)
  have m: "is_hom_alt r = Inr True"
    by (simp add: is_hom_alt_pair r_def)
  have l: "find_first_homozygous_alt (ns_sliced\<lparr>var_pos := PyStr ''''\<rparr>) [r] =
      Inr (ns_sliced\<lparr>stdout := stdout ns_sliced @ [OutRecord r], var_pos := PyInt 355040\<rparr>, [])"
    using m by (simp add: r_def)
  have c: "cell_find_variant (reader_of [r]) ns_sliced = Inr (ns_found, [])"
    using q l
    by (simp add: cell_find_variant_def reader_of_def py_format_position str_int_examples
        ns_found_def del: py_format.simps find_first_homozygous_alt.simps)
  have d: "cell_region ns_found = Inr (ns_found\<lparr>region := ''GRCh38.chr1:355040-355040''\<rparr>)"
    by (simp add: cell_region_def region_of_def py_format_GRCh38 ns_found_def str_int_examples
        del: py_format.simps)
  from a b c d show ?thesis
    unfolding r_def ns_found_def Let_def by blast
qed

section \<open>The stream without a match\<close>

text \<open>
  C4. On a stream whose only record is heterozygous the cell ends with \<open>var_pos\<close> still
  the empty string it was initialised with: a string, not \<open>None\<close>, and one that the
  later region formatting takes as a position without complaint.
\<close>

theorem no_match_result_is_sentinel_counterexample:
  "cell_find_variant (reader_of [v_het]) ns_sliced =
     Inr (ns_sliced\<lparr>var_pos := PyStr '''',
            stdout := stdout ns_sliced @ [OutText ''There is a variant at position '']\<rparr>, []) \<and>
   PyStr '''' \<noteq> PyNone \<and>
   region_of (PyStr '''') = Inr ''GRCh38.chr1:-''"
proof -
  have q: "region_query (coord_sub ns_sliced) = Inr ''chr1:355036-355222''"
    by (simp add: ns_sliced_def region_query_two str_int_examples)
  have nm: "\<forall>r\<in>set (reader_of [v_het] ''chr1:355036-355222''). is_hom_alt r = Inr False"
    by (simp add: reader_of_def is_hom_alt_examples)
  show ?thesis
    using cell_find_variant_no_match
      [where ns = ns_sliced and q = "''chr1:355036-355222''" and vcf_reader = "reader_of [v_het]", OF q nm]
    by (simp add: region_of_def py_format_GRCh38 del: py_format.simps)
qed

text \<open>
  C4, as the code has it. When no record of the stream passes the test, the cell ends
  normally with the whole stream read, no record printed, and \<open>var_pos\<close> the initial
  empty string, which is no integer position.
\<close>

theorem no_match_leaves_empty_string:
  "region_query (coord_sub ns) = Inr q \<Longrightarrow>
   \<forall>r\<in>set (vcf_reader q). is_hom_alt r = Inr False \<Longrightarrow>
   (\<exists>ns'. cell_find_variant vcf_reader ns = Inr (ns', []) \<and>
      var_pos ns' = PyStr '''' \<and>
      (\<forall>p. var_pos ns' \<noteq> PyInt p) \<and>
      stdout ns' = stdout ns @ [OutText ''There is a variant at position ''])"
  by (simp add: cell_find_variant_no_match)

theorem no_match_leaves_empty_string_witness:
  "region_query (coord_sub ns_sliced) = Inr ''chr1:355036-355222'' \<and>
   is_hom_alt v_het = Inr False \<and> is_hom_alt v_homalt2 = Inr False \<and>
   (\<exists>ns'. cell_find_variant (reader_of [v_het, v_homalt2]) ns_sliced = Inr (ns', []) \<and>
      var_pos ns' = PyStr '''' \<and>
      (\<forall>p. var_pos ns' \<noteq> PyInt p) \<and>
      stdout ns' = stdout ns_sliced @ [OutText ''There is a variant at position ''])"
proof -
  have q: "region_query (coord_sub ns_sliced) = Inr ''chr1:355036-355222''"
    by (simp add: ns_sliced_def region_query_two str_int_examples)
  have nm: "\<forall>r\<in>set (reader_of [v_het, v_homalt2] ''chr1:355036-355222''). is_hom_alt r = Inr False"
    by (simp add: reader_of_def is_hom_alt_examples)
  from q nm no_match_leaves_empty_string
    [where ns = ns_sliced and q = "''chr1:355036-355222''" and vcf_reader = "reader_of [v_het, v_homalt2]"]
  show ?thesis by (simp add: is_hom_alt_examples)
qed

text \<open>
  C10. When no record of the stream passes the test, the retained position is still the
  initial empty string, and the next cell builds from it the region string
  \<open>GRCh38.chr1:-\<close>, with empty start and end, and raises nothing.
\<close>

theorem no_match_propagates_empty_string:
  "region_query (coord_sub ns) = Inr q \<Longrightarrow>
   \<forall>r\<in>set (vcf_reader q). is_hom_alt r = Inr False \<Longrightarrow>
   (\<exists>ns'. cell_find_variant vcf_reader ns = Inr (ns', []) \<and>
      var_pos ns' = PyStr '''' \<and>
      cell_region ns' = Inr (ns'\<lparr>region := ''GRCh38.chr1:-''\<rparr>))"
  by (simp add: cell_find_variant_no_match cell_region_def region_of_def py_format_GRCh38
      del: py_format.simps)

theorem no_match_propagates_empty_string_witness:
  "region_query (coord_sub ns_sliced) = Inr ''chr1:355036-355222'' \<and>
   is_hom_alt v_het = Inr False \<and>
   (\<exists>ns'. cell_find_variant (reader_of [v_het]) ns_sliced = Inr (ns', []) \<and>
      var_pos ns' = PyStr '''' \<and>
      cell_region ns' = Inr (ns'\<lparr>region := ''GRCh38.chr1:-''\<rparr>))"
proof -
  have q: "region_query (coord_sub ns_sliced) = Inr ''chr1:355036-355222''"
    by (simp add: ns_sliced_def region_query_two str_int_examples)
  have nm: "\<forall>r\<in>set (reader_of [v_het] ''chr1:355036-355222''). is_hom_alt r = Inr False"
    by (simp add: reader_of_def is_hom_alt_examples)
  from q nm no_match_propagates_empty_string
    [where ns = ns_sliced and q = "''chr1:355036-355222''" and vcf_reader = "reader_of [v_het]"]
  show ?thesis by (simp add: is_hom_alt_examples)
qed

end
